theory Spec2Isabelle
  imports Main
begin

section \<open>Errors\<close>

text \<open>
  A Go \<open>error\<close> value that is not nil. The two sentinels of \<open>database/sql\<close> are
  constructors of their own, because \<open>errors.Is\<close> compares them by identity and not
  by message. \<open>New\<close> is any other error without an \<open>Unwrap\<close> method.
  \<open>WrapError msg e\<close> is the \<open>*fmt.wrapError\<close> that \<open>fmt.Errorf\<close> builds for a
  format with one \<open>%w\<close> verb: it holds the formatted message and the one error it
  unwraps to. \<open>HttpError e status\<close> is the value built by \<open>httperr.Wrap\<close>.
  A nil error is \<open>None\<close> of \<open>err option\<close>.
\<close>

datatype err =
    ErrTxDone
  | ErrNoRows
  | New string
  | WrapError string err
  | HttpError err nat

fun Error :: "err \<Rightarrow> string" where
  "Error ErrTxDone = ''sql: transaction has already been committed or rolled back''"
| "Error ErrNoRows = ''sql: no rows in result set''"
| "Error (New msg) = msg"
| "Error (WrapError msg e) = msg"
| "Error (HttpError e status) = Error e"

fun Unwrap :: "err \<Rightarrow> err option" where
  "Unwrap (WrapError msg e) = Some e"
| "Unwrap (HttpError e status) = Some e"
| "Unwrap e = None"

text \<open>
  \<open>errors.Is(e, target)\<close>: walk the \<open>Unwrap\<close> chain of \<open>e\<close> and compare each
  link with \<open>target\<close>.
\<close>

fun errors_Is :: "err \<Rightarrow> err \<Rightarrow> bool" where
  "errors_Is (WrapError msg e) target = (WrapError msg e = target \<or> errors_Is e target)"
| "errors_Is (HttpError e status) target = (HttpError e status = target \<or> errors_Is e target)"
| "errors_Is e target = (e = target)"

text \<open>\<open>fmt.Errorf(prefix + "%w", e)\<close>: the message is the prefix followed by the
  message of \<open>e\<close>, and the result unwraps to \<open>e\<close>.\<close>

definition fmt_Errorf_w :: "string \<Rightarrow> err \<Rightarrow> err" where
  "fmt_Errorf_w prefix e = WrapError (prefix @ Error e) e"

definition StatusNotFound :: nat where
  "StatusNotFound = 404"

section \<open>Transaction handles, contexts and the collaborators\<close>

text \<open>A \<open>*sqlx.Tx\<close> is a reference; the model names it by a number.\<close>

type_synonym tx = nat

text \<open>
  A \<open>context.Context\<close>. The key \<open>txKey{}\<close> is of an unexported type, so the only
  values ever stored under it are the handles stored by \<open>Wrap\<close>: the field
  \<open>txval\<close> is what \<open>ctx.Value(txKey{})\<close> reads (\<open>None\<close> for nil), and
  \<open>others\<close> holds what the host application stored under its own keys.
\<close>

record ctx =
  txval :: "tx option"
  others :: "(string \<times> string) list"

record request =
  req_ctx :: ctx
  req_path :: string

text \<open>
  What a run does to the collaborators, in the order in which it happens: each call
  of \<open>BeginTxx\<close>, \<open>Commit\<close>, \<open>Rollback\<close> and of the error handler leaves one event.
\<close>

datatype event =
    EvBegin
  | EvCommit tx
  | EvRollback tx
  | EvRender err
  | EvUse tx

text \<open>
  A computation on the state \<open>'e\<close> of the outside world (the database and the
  response writer): it returns its value, the events it caused and the new state.
\<close>

type_synonym ('r, 'e) io = "'e \<Rightarrow> 'r \<times> event list \<times> 'e"

text \<open>
  The database is a parameter: \<open>BeginTxx\<close> is \<open>t.dbx.BeginTxx(ctx, nil)\<close>,
  \<open>Commit\<close> and \<open>Rollback\<close> are the methods of the handle. Each may fail with any
  error and change the state in any way.
\<close>

record 'e driver =
  BeginTxx :: "ctx \<Rightarrow> 'e \<Rightarrow> (err + tx) \<times> 'e"
  Commit :: "tx \<Rightarrow> 'e \<Rightarrow> err option \<times> 'e"
  Rollback :: "tx \<Rightarrow> 'e \<Rightarrow> err option \<times> 'e"

section \<open>The rollback protocol\<close>

text \<open>
  \<open>rollback(tx, err)\<close>. Every caller passes an error it has just tested to be
  non-nil, so the argument is an \<open>err\<close>; the result is never nil either.
\<close>

definition rollback :: "'e driver \<Rightarrow> tx \<Rightarrow> err \<Rightarrow> (err, 'e) io" where
  "rollback d tx e s =
     (case Rollback d tx s of
        (Some rerr, s1) \<Rightarrow>
          if errors_Is rerr ErrTxDone then (e, [EvRollback tx], s1)
          else (WrapError (''failed to rollback: '' @ Error e @ '': '' @ Error rerr) rerr,
                [EvRollback tx], s1)
      | (None, s1) \<Rightarrow>
          if errors_Is e ErrNoRows then (HttpError e StatusNotFound, [EvRollback tx], s1)
          else (e, [EvRollback tx], s1))"

section \<open>The typed executor\<close>

text \<open>
  \<open>Typed[T].WrapFn(ctx, fn)\<close>. \<open>zero\<close> is the zero value of \<open>T\<close>, which
  \<open>var r T\<close> holds until \<open>fn\<close> has returned.
\<close>

definition Typed_WrapFn ::
  "'e driver \<Rightarrow> 'a \<Rightarrow> ctx \<Rightarrow> (tx \<Rightarrow> ('a \<times> err option, 'e) io) \<Rightarrow> ('a \<times> err option, 'e) io" where
  "Typed_WrapFn d zero c fn s =
     (case BeginTxx d c s of
        (Inl e, s1) \<Rightarrow>
          ((zero, Some (fmt_Errorf_w ''failed to begin transaction: '' e)), [EvBegin], s1)
      | (Inr tx, s1) \<Rightarrow>
          (case fn tx s1 of
             ((r, Some e), t2, s2) \<Rightarrow>
               (case rollback d tx e s2 of
                  (e', t3, s3) \<Rightarrow> ((r, Some e'), EvBegin # t2 @ t3, s3))
           | ((r, None), t2, s2) \<Rightarrow>
               (case Commit d tx s2 of
                  (Some e, s3) \<Rightarrow>
                    if errors_Is e ErrTxDone then ((r, None), EvBegin # t2 @ [EvCommit tx], s3)
                    else ((r, Some (fmt_Errorf_w ''failed to commit transaction: '' e)),
                          EvBegin # t2 @ [EvCommit tx], s3)
                | (None, s3) \<Rightarrow> ((r, None), EvBegin # t2 @ [EvCommit tx], s3))))"

section \<open>The request mediator\<close>

text \<open>\<open>Transactional.WrapFn(ctx, fn)\<close>.\<close>

definition Transactional_WrapFn ::
  "'e driver \<Rightarrow> ctx \<Rightarrow> (tx \<Rightarrow> (err option, 'e) io) \<Rightarrow> (err option, 'e) io" where
  "Transactional_WrapFn d c fn s =
     (case BeginTxx d c s of
        (Inl e, s1) \<Rightarrow> (Some (fmt_Errorf_w ''failed to begin transaction: '' e), [EvBegin], s1)
      | (Inr tx, s1) \<Rightarrow>
          (case fn tx s1 of
             (Some e, t2, s2) \<Rightarrow>
               (case rollback d tx e s2 of
                  (e', t3, s3) \<Rightarrow> (Some e', EvBegin # t2 @ t3, s3))
           | (None, t2, s2) \<Rightarrow>
               (case Commit d tx s2 of
                  (Some e, s3) \<Rightarrow>
                    if errors_Is e ErrTxDone then (None, EvBegin # t2 @ [EvCommit tx], s3)
                    else (Some (fmt_Errorf_w ''failed to commit transaction: '' e),
                          EvBegin # t2 @ [EvCommit tx], s3)
                | (None, s3) \<Rightarrow> (None, EvBegin # t2 @ [EvCommit tx], s3))))"

text \<open>
  A \<open>Handler\<close>: \<open>ServeHTTP(tx, w, r)\<close>. The response writer \<open>w\<close> is a part of the
  state \<open>'e\<close>, which the handler may change.
\<close>

type_synonym 'e Handler = "tx \<Rightarrow> request \<Rightarrow> (err option, 'e) io"

text \<open>
  The function that \<open>Wrap\<close> hands to \<open>httperr.NewFWithHandler\<close>. With a handle in
  the context the handler runs on that handle, and a failure goes through
  \<open>rollback\<close>; without one the handler runs inside \<open>WrapFn\<close>, with a request
  whose context carries the new handle.
\<close>

definition Wrap_func :: "'e driver \<Rightarrow> 'e Handler \<Rightarrow> request \<Rightarrow> (err option, 'e) io" where
  "Wrap_func d h r s =
     (case txval (req_ctx r) of
        Some tx \<Rightarrow>
          (case h tx r s of
             (Some e, t1, s1) \<Rightarrow>
               (case rollback d tx e s1 of (e', t2, s2) \<Rightarrow> (Some e', t1 @ t2, s2))
           | (None, t1, s1) \<Rightarrow> (None, t1, s1))
      | None \<Rightarrow>
          Transactional_WrapFn d (req_ctx r)
            (\<lambda>tx. h tx (r\<lparr>req_ctx := (req_ctx r)\<lparr>txval := Some tx\<rparr>\<rparr>)) s)"

text \<open>
  \<open>httperr.NewFWithHandler(f, eh)\<close>: the \<open>http.Handler\<close> that runs \<open>f\<close> and gives
  a non-nil error to the error handler \<open>eh\<close>, which writes the response. It returns
  nothing to its caller.
\<close>

definition NewFWithHandler ::
  "(request \<Rightarrow> (err option, 'e) io) \<Rightarrow> (err \<Rightarrow> 'e \<Rightarrow> 'e) \<Rightarrow> request \<Rightarrow> (unit, 'e) io" where
  "NewFWithHandler f eh r s =
     (case f r s of
        (Some e, t, s1) \<Rightarrow> ((), t @ [EvRender e], eh e s1)
      | (None, t, s1) \<Rightarrow> ((), t, s1))"

text \<open>\<open>Transactional.Wrap(h, eh)\<close>.\<close>

definition Transactional_Wrap ::
  "'e driver \<Rightarrow> 'e Handler \<Rightarrow> (err \<Rightarrow> 'e \<Rightarrow> 'e) \<Rightarrow> request \<Rightarrow> (unit, 'e) io" where
  "Transactional_Wrap d h eh = NewFWithHandler (Wrap_func d h) eh"

section \<open>A database for the concrete runs\<close>

text \<open>
  An in-memory stand-in for \<open>database/sql\<close>, used where a run is evaluated on
  concrete input. A handle is finished by its first \<open>Commit\<close> or \<open>Rollback\<close>,
  whatever the driver answers; every later call on it fails with \<open>ErrTxDone\<close>.
  The three \<open>fault\<close> fields are the errors the driver answers with.
\<close>

record db =
  next_tx :: tx
  finished :: "tx list"
  begin_fault :: "err option"
  commit_fault :: "err option"
  rollback_fault :: "err option"
  response :: "string list"

definition sqlBegin :: "ctx \<Rightarrow> db \<Rightarrow> (err + tx) \<times> db" where
  "sqlBegin c s =
     (case begin_fault s of
        Some e \<Rightarrow> (Inl e, s)
      | None \<Rightarrow> (Inr (next_tx s), s\<lparr>next_tx := Suc (next_tx s)\<rparr>))"

definition sqlCommit :: "tx \<Rightarrow> db \<Rightarrow> err option \<times> db" where
  "sqlCommit tx s =
     (if tx \<in> set (finished s) then (Some ErrTxDone, s)
      else (commit_fault s, s\<lparr>finished := tx # finished s\<rparr>))"

definition sqlRollback :: "tx \<Rightarrow> db \<Rightarrow> err option \<times> db" where
  "sqlRollback tx s =
     (if tx \<in> set (finished s) then (Some ErrTxDone, s)
      else (rollback_fault s, s\<lparr>finished := tx # finished s\<rparr>))"

definition sqlDriver :: "db driver" where
  "sqlDriver = \<lparr>BeginTxx = sqlBegin, Commit = sqlCommit, Rollback = sqlRollback\<rparr>"

definition db0 :: db where
  "db0 = \<lparr>next_tx = 0, finished = [], begin_fault = None, commit_fault = None,
          rollback_fault = None, response = []\<rparr>"

definition db1 :: db where
  "db1 = db0\<lparr>next_tx := 1\<rparr>"

text \<open>The state in which handle 0 has been begun and finished.\<close>

definition dbDone :: db where
  "dbDone = db1\<lparr>finished := [0]\<rparr>"

text \<open>The state in which handle 0 is open and the driver fails every rollback.\<close>

definition dbFault :: db where
  "dbFault = db1\<lparr>rollback_fault := Some (New ''connection lost'')\<rparr>"

definition background :: ctx where
  "background = \<lparr>txval = None, others = []\<rparr>"

text \<open>A context that already carries the handle 7.\<close>

definition carrying7 :: ctx where
  "carrying7 = \<lparr>txval = Some 7, others = []\<rparr>"

definition req0 :: request where
  "req0 = \<lparr>req_ctx = background, req_path = ''/''\<rparr>"

text \<open>The request that a handler running on handle 0 receives from \<open>Wrap\<close>.\<close>

definition reqTx0 :: request where
  "reqTx0 = \<lparr>req_ctx = \<lparr>txval = Some 0, others = []\<rparr>, req_path = ''/''\<rparr>"

text \<open>An error handler that writes the message of the error as the response.\<close>

definition renderError :: "err \<Rightarrow> db \<Rightarrow> db" where
  "renderError e s = s\<lparr>response := response s @ [Error e]\<rparr>"

text \<open>Units of work: one that succeeds with the result 5, one that fails and
  returns 5 beside its error, one that fails with \<open>sql.ErrNoRows\<close> (typed and
  untyped), and one that commits its handle itself before it returns (typed and
  untyped).\<close>

definition fnFive :: "tx \<Rightarrow> (nat \<times> err option, db) io" where
  "fnFive tx s = ((5, None), [EvUse tx], s)"

definition fnFail :: "tx \<Rightarrow> (nat \<times> err option, db) io" where
  "fnFail tx s = ((5, Some (New ''boom'')), [EvUse tx], s)"



definition fnCommits :: "tx \<Rightarrow> (err option, db) io" where
  "fnCommits tx s = (case sqlCommit tx s of (eo, s1) \<Rightarrow> (eo, [EvUse tx, EvCommit tx], s1))"

definition fnCommitsT :: "tx \<Rightarrow> (nat \<times> err option, db) io" where
  "fnCommitsT tx s = (case sqlCommit tx s of (eo, s1) \<Rightarrow> ((5, eo), [EvUse tx, EvCommit tx], s1))"

definition hNoRows :: "db Handler" where
  "hNoRows tx r s = (Some ErrNoRows, [EvUse tx], s)"

section \<open>Nested handlers\<close>

text \<open>
  A chain of handlers, each behind its own \<open>Wrap\<close>. A \<open>Leaf\<close> handler runs
  application logic on the handle it was given. A \<open>Nest\<close> handler serves the
  request it received through \<open>Wrap\<close> of the next handler of the chain, then runs
  its own logic, which decides what it returns. The logic works on the outside
  world only: it begins no transaction of its own. Every handler leaves an
  \<open>EvUse\<close> event with the handle it was given.
\<close>

datatype 'e chain =
    Leaf "tx \<Rightarrow> 'e \<Rightarrow> err option \<times> 'e"
  | Nest "tx \<Rightarrow> 'e \<Rightarrow> err option \<times> 'e" "'e chain"

fun chain_handler :: "'e driver \<Rightarrow> (err \<Rightarrow> 'e \<Rightarrow> 'e) \<Rightarrow> 'e chain \<Rightarrow> 'e Handler" where
  "chain_handler d eh (Leaf body) =
     (\<lambda>tx r s. case body tx s of (res, s1) \<Rightarrow> (res, [EvUse tx], s1))"
| "chain_handler d eh (Nest body inner) =
     (\<lambda>tx r s.
        case Transactional_Wrap d (chain_handler d eh inner) eh r s of
          (u, t1, s1) \<Rightarrow> (case body tx s1 of (res, s2) \<Rightarrow> (res, EvUse tx # t1, s2)))"

text \<open>The number of \<open>BeginTxx\<close> calls of a run, and the handles its handlers were given.\<close>

fun begins :: "event list \<Rightarrow> nat" where
  "begins [] = 0"
| "begins (EvBegin # t) = Suc (begins t)"
| "begins (ev # t) = begins t"

fun uses :: "event list \<Rightarrow> tx list" where
  "uses [] = []"
| "uses (EvUse tx # t) = tx # uses t"
| "uses (ev # t) = uses t"


text \<open>An inner handler that fails, and an outer handler that nests it and returns nil.\<close>

definition innerFails :: "db chain" where
  "innerFails = Leaf (\<lambda>tx s. (Some (New ''boom''), s))"

definition outerOk :: "db chain" where
  "outerOk = Nest (\<lambda>tx s. (None, s)) innerFails"


text \<open>The number of handlers of a chain.\<close>

fun depth :: "'e chain \<Rightarrow> nat" where
  "depth (Leaf body) = 1"
| "depth (Nest body inner) = Suc (depth inner)"

text \<open>
  The handle a request is served on: the one its context carries or, without
  one, the one \<open>BeginTxx\<close> returns (none when \<open>BeginTxx\<close> fails).
\<close>

definition active_handle :: "'e driver \<Rightarrow> request \<Rightarrow> 'e \<Rightarrow> tx option" where
  "active_handle d r s =
     (case txval (req_ctx r) of
        Some tx \<Rightarrow> Some tx
      | None \<Rightarrow> (case fst (BeginTxx d (req_ctx r) s) of Inl e \<Rightarrow> None | Inr tx \<Rightarrow> Some tx))"

section \<open>The stand-in database on handle 0\<close>

lemma sql_begin0: "BeginTxx sqlDriver background db0 = (Inr 0, db1)"
  by (simp add: sqlDriver_def sqlBegin_def db0_def db1_def)

lemma sql_begin0_carrying: "BeginTxx sqlDriver carrying7 db0 = (Inr 0, db1)"
  by (simp add: sqlDriver_def sqlBegin_def db0_def db1_def)

lemma sql_commit0: "Commit sqlDriver 0 db1 = (None, dbDone)"
  by (simp add: sqlDriver_def sqlCommit_def db0_def db1_def dbDone_def)

lemma sql_rollback0: "Rollback sqlDriver 0 db1 = (None, dbDone)"
  by (simp add: sqlDriver_def sqlRollback_def db0_def db1_def dbDone_def)

lemma sql_commit_done: "Commit sqlDriver 0 dbDone = (Some ErrTxDone, dbDone)"
  by (simp add: sqlDriver_def sqlCommit_def db0_def db1_def dbDone_def)

lemma sql_rollback_done: "Rollback sqlDriver 0 dbDone = (Some ErrTxDone, dbDone)"
  by (simp add: sqlDriver_def sqlRollback_def db0_def db1_def dbDone_def)

lemma sql_rollback_fault:
  "Rollback sqlDriver 0 dbFault = (Some (New ''connection lost''), dbFault\<lparr>finished := [0]\<rparr>)"
  by (simp add: sqlDriver_def sqlRollback_def db0_def db1_def dbFault_def)

lemma sql_done_response:
  "Commit sqlDriver 0 (dbDone\<lparr>response := x\<rparr>) = (Some ErrTxDone, dbDone\<lparr>response := x\<rparr>)"
  "Rollback sqlDriver 0 (dbDone\<lparr>response := x\<rparr>) = (Some ErrTxDone, dbDone\<lparr>response := x\<rparr>)"
  by (simp_all add: sqlDriver_def sqlCommit_def sqlRollback_def dbDone_def)

lemma rendered_boom:
  "renderError (New ''boom'') dbDone = dbDone\<lparr>response := [''boom'']\<rparr>"
  by (simp add: renderError_def dbDone_def db1_def db0_def)

lemma req0_with_tx0: "req0\<lparr>req_ctx := (req_ctx req0)\<lparr>txval := Some 0\<rparr>\<rparr> = reqTx0"
  by (simp add: req0_def reqTx0_def background_def)


section \<open>The events of a run\<close>

text \<open>
  The events of each function, as an equation: what the unit of work or handler
  caused, around the calls of the collaborators.
\<close>

lemma begins_append: "begins (a @ b) = begins a + begins b"
  by (induction a rule: begins.induct) simp_all

lemma uses_append: "uses (a @ b) = uses a @ uses b"
  by (induction a rule: uses.induct) simp_all

lemma rollback_trace: "fst (snd (rollback d tx e s)) = [EvRollback tx]"
  by (simp add: rollback_def split: prod.splits option.splits)

lemma rollback_cases:
  obtains e' s' where "rollback d tx e s = (e', [EvRollback tx], s')"
proof -
  obtain e' t s' where r: "rollback d tx e s = (e', t, s')"
    by (cases "rollback d tx e s") auto
  with rollback_trace [of d tx e s] have "t = [EvRollback tx]" by simp
  with r that show thesis by simp
qed

lemma wrap_func_reuse:
  assumes "txval (req_ctx r) = Some tx"
  shows "fst (snd (Wrap_func d h r s))
           = fst (snd (h tx r s))
             @ (case fst (h tx r s) of None \<Rightarrow> [] | Some e \<Rightarrow> [EvRollback tx])"
proof (cases "h tx r s")
  case (fields res t s1)
  show ?thesis
  proof (cases res)
    case None
    with fields assms show ?thesis by (simp add: Wrap_func_def)
  next
    case (Some e)
    obtain e' s' where "rollback d tx e s1 = (e', [EvRollback tx], s')"
      by (rule rollback_cases)
    with Some fields assms show ?thesis by (simp add: Wrap_func_def)
  qed
qed

lemma commit_branch_trace:
  "fst (snd (case Commit d tx s2 of
               (Some e, s3) \<Rightarrow>
                 if errors_Is e ErrTxDone then (a, t, s3) else (b e, t, s3)
             | (None, s3) \<Rightarrow> (a, t, s3))) = t"
  by (cases "Commit d tx s2") (simp split: option.splits)

lemma wrapfn_trace:
  "fst (snd (Transactional_WrapFn d c fn s))
     = (case BeginTxx d c s of
          (Inl e, s1) \<Rightarrow> [EvBegin]
        | (Inr tx, s1) \<Rightarrow>
            EvBegin # fst (snd (fn tx s1))
              @ [case fst (fn tx s1) of None \<Rightarrow> EvCommit tx | Some e \<Rightarrow> EvRollback tx])"
proof (cases "BeginTxx d c s")
  case (Pair res s1)
  show ?thesis
  proof (cases res)
    case (Inl e)
    with Pair show ?thesis by (simp add: Transactional_WrapFn_def)
  next
    case (Inr tx)
    obtain eo t s2 where f: "fn tx s1 = (eo, t, s2)" by (cases "fn tx s1") auto
    show ?thesis
    proof (cases eo)
      case None
      with Pair Inr f show ?thesis
        by (simp add: Transactional_WrapFn_def commit_branch_trace)
    next
      case (Some e)
      obtain e' s' where "rollback d tx e s2 = (e', [EvRollback tx], s')"
        by (rule rollback_cases)
      with Some Pair Inr f show ?thesis
        by (simp add: Transactional_WrapFn_def)
    qed
  qed
qed

lemma typed_wrapfn_trace:
  "fst (snd (Typed_WrapFn d zero c fn s))
     = (case BeginTxx d c s of
          (Inl e, s1) \<Rightarrow> [EvBegin]
        | (Inr tx, s1) \<Rightarrow>
            EvBegin # fst (snd (fn tx s1))
              @ [case snd (fst (fn tx s1)) of None \<Rightarrow> EvCommit tx | Some e \<Rightarrow> EvRollback tx])"
proof (cases "BeginTxx d c s")
  case (Pair res s1)
  show ?thesis
  proof (cases res)
    case (Inl e)
    with Pair show ?thesis by (simp add: Typed_WrapFn_def)
  next
    case (Inr tx)
    obtain r eo t s2 where f: "fn tx s1 = ((r, eo), t, s2)" by (cases "fn tx s1") auto
    show ?thesis
    proof (cases eo)
      case None
      with Pair Inr f show ?thesis
        by (simp add: Typed_WrapFn_def commit_branch_trace)
    next
      case (Some e)
      obtain e' s' where "rollback d tx e s2 = (e', [EvRollback tx], s')"
        by (rule rollback_cases)
      with Some Pair Inr f show ?thesis
        by (simp add: Typed_WrapFn_def)
    qed
  qed
qed

lemma new_with_handler_trace:
  "fst (snd (NewFWithHandler f eh r s))
     = fst (snd (f r s)) @ (case fst (f r s) of None \<Rightarrow> [] | Some e \<Rightarrow> [EvRender e])"
proof (cases "f r s")
  case (fields res t s1)
  then show ?thesis
    by (cases res) (simp_all add: NewFWithHandler_def)
qed

lemma begins_tail [simp]:
  "begins (case x of None \<Rightarrow> [] | Some e \<Rightarrow> [EvRollback tx]) = 0"
  "begins (case x of None \<Rightarrow> [] | Some e \<Rightarrow> [EvRender e]) = 0"
  "begins [case x of None \<Rightarrow> EvCommit tx | Some e \<Rightarrow> EvRollback tx] = 0"
  by (cases x; simp)+

lemma uses_tail [simp]:
  "uses (case x of None \<Rightarrow> [] | Some e \<Rightarrow> [EvRollback tx]) = []"
  "uses (case x of None \<Rightarrow> [] | Some e \<Rightarrow> [EvRender e]) = []"
  "uses [case x of None \<Rightarrow> EvCommit tx | Some e \<Rightarrow> EvRollback tx] = []"
  by (cases x; simp)+

lemma wrap_reuse_counts:
  assumes "txval (req_ctx r) = Some tx"
  shows "begins (fst (snd (Transactional_Wrap d h eh r s))) = begins (fst (snd (h tx r s)))"
    and "uses (fst (snd (Transactional_Wrap d h eh r s))) = uses (fst (snd (h tx r s)))"
  by (simp_all add: Transactional_Wrap_def new_with_handler_trace wrap_func_reuse [OF assms]
      begins_append uses_append)

lemma chain_reuse:
  assumes "txval (req_ctx r) = Some tx"
  shows "begins (fst (snd (chain_handler d eh c tx r s))) = 0
       \<and> uses (fst (snd (chain_handler d eh c tx r s))) = replicate (depth c) tx"
proof (induction c arbitrary: s)
  case (Leaf body)
  show ?case by (simp split: prod.splits)
next
  case (Nest body inner)
  let ?h = "chain_handler d eh inner"
  have b: "begins (fst (snd (Transactional_Wrap d ?h eh r s))) = 0"
    using Nest.IH [of s] by (simp add: wrap_reuse_counts [OF assms])
  have u: "uses (fst (snd (Transactional_Wrap d ?h eh r s))) = replicate (depth inner) tx"
    using Nest.IH [of s] by (simp add: wrap_reuse_counts [OF assms])
  obtain un t1 s1 where w: "Transactional_Wrap d ?h eh r s = (un, t1, s1)"
    by (cases "Transactional_Wrap d ?h eh r s") auto
  obtain res s2 where bd: "body tx s1 = (res, s2)"
    by (cases "body tx s1") auto
  from b u w bd show ?case by simp
qed

lemma wrap_fresh_counts:
  assumes "txval (req_ctx r) = None"
  shows "begins (fst (snd (Transactional_Wrap d h eh r s)))
           = (case BeginTxx d (req_ctx r) s of
                (Inl e, s1) \<Rightarrow> 1
              | (Inr tx, s1) \<Rightarrow>
                  Suc (begins (fst (snd (h tx (r\<lparr>req_ctx := (req_ctx r)\<lparr>txval := Some tx\<rparr>\<rparr>) s1)))))"
    and "uses (fst (snd (Transactional_Wrap d h eh r s)))
           = (case BeginTxx d (req_ctx r) s of
                (Inl e, s1) \<Rightarrow> []
              | (Inr tx, s1) \<Rightarrow>
                  uses (fst (snd (h tx (r\<lparr>req_ctx := (req_ctx r)\<lparr>txval := Some tx\<rparr>\<rparr>) s1))))"
proof -
  have w: "Wrap_func d h r s = Transactional_WrapFn d (req_ctx r)
            (\<lambda>tx. h tx (r\<lparr>req_ctx := (req_ctx r)\<lparr>txval := Some tx\<rparr>\<rparr>)) s"
    using assms by (simp add: Wrap_func_def)
  show "begins (fst (snd (Transactional_Wrap d h eh r s)))
           = (case BeginTxx d (req_ctx r) s of
                (Inl e, s1) \<Rightarrow> 1
              | (Inr tx, s1) \<Rightarrow>
                  Suc (begins (fst (snd (h tx (r\<lparr>req_ctx := (req_ctx r)\<lparr>txval := Some tx\<rparr>\<rparr>) s1)))))"
    by (simp add: Transactional_Wrap_def new_with_handler_trace w wrapfn_trace begins_append
        split: prod.splits sum.splits)
  show "uses (fst (snd (Transactional_Wrap d h eh r s)))
           = (case BeginTxx d (req_ctx r) s of
                (Inl e, s1) \<Rightarrow> []
              | (Inr tx, s1) \<Rightarrow>
                  uses (fst (snd (h tx (r\<lparr>req_ctx := (req_ctx r)\<lparr>txval := Some tx\<rparr>\<rparr>) s1))))"
    by (simp add: Transactional_Wrap_def new_with_handler_trace w wrapfn_trace uses_append
        split: prod.splits sum.splits)
qed

section \<open>A nested run on the stand-in database\<close>

text \<open>
  The failing handler behind \<open>Wrap\<close>, on a request that carries handle 0, and the
  two outer handlers that nest it, on a request without a handle.
\<close>

lemma inner_handler_run:
  "chain_handler sqlDriver renderError innerFails 0 r db1 = (Some (New ''boom''), [EvUse 0], db1)"
  by (simp add: innerFails_def)

lemma inner_wrap_func_run:
  "Wrap_func sqlDriver (chain_handler sqlDriver renderError innerFails) reqTx0 db1
     = (Some (New ''boom''), [EvUse 0, EvRollback 0], dbDone)"
proof -
  have "txval (req_ctx reqTx0) = Some 0" by (simp add: reqTx0_def)
  then show ?thesis
    by (simp add: Wrap_func_def inner_handler_run rollback_def sql_rollback0)
qed

lemma inner_wrap_run:
  "Transactional_Wrap sqlDriver (chain_handler sqlDriver renderError innerFails) renderError reqTx0 db1
     = ((), [EvUse 0, EvRollback 0, EvRender (New ''boom'')], dbDone\<lparr>response := [''boom'']\<rparr>)"
  by (simp add: Transactional_Wrap_def NewFWithHandler_def inner_wrap_func_run rendered_boom)

lemma outer_ok_handler_run:
  "chain_handler sqlDriver renderError outerOk 0 reqTx0 db1
     = (None, [EvUse 0, EvUse 0, EvRollback 0, EvRender (New ''boom'')],
        dbDone\<lparr>response := [''boom'']\<rparr>)"
  using inner_wrap_run by (simp add: outerOk_def)


lemma outer_ok_wrap_func_run:
  "Wrap_func sqlDriver (chain_handler sqlDriver renderError outerOk) req0 db0
     = (None, [EvBegin, EvUse 0, EvUse 0, EvRollback 0, EvRender (New ''boom''), EvCommit 0],
        dbDone\<lparr>response := [''boom'']\<rparr>)"
proof -
  have c: "req_ctx req0 = background" "txval background = None"
    by (simp_all add: req0_def background_def)
  have r: "req0\<lparr>req_ctx := background\<lparr>txval := Some 0\<rparr>\<rparr> = reqTx0"
    using req0_with_tx0 c by simp
  show ?thesis
    by (simp add: Wrap_func_def Transactional_WrapFn_def c r sql_begin0 outer_ok_handler_run
        sql_done_response)
qed


lemma chain_example:
  "begins (fst (snd (Transactional_Wrap sqlDriver (chain_handler sqlDriver renderError outerOk)
                   renderError req0 db0))) = 1
   \<and> uses (fst (snd (Transactional_Wrap sqlDriver (chain_handler sqlDriver renderError outerOk)
                   renderError req0 db0))) = [0, 0]"
  by (simp add: Transactional_Wrap_def [of sqlDriver "chain_handler sqlDriver renderError outerOk"]
      NewFWithHandler_def outer_ok_wrap_func_run)

section \<open>The executor\<close>

text \<open>
  C1. When the unit of work given to \<open>Typed.WrapFn\<close> returns a result and a nil
  error and the commit that follows returns nil, \<open>WrapFn\<close> returns that same
  result and a nil error.
\<close>

theorem typed_wrapfn_success:
  assumes "BeginTxx d c s = (Inr tx, s1)"
    and "fn tx s1 = ((r, None), t, s2)"
    and "Commit d tx s2 = (None, s3)"
  shows "fst (Typed_WrapFn d zero c fn s) = (r, None)"
  using assms by (simp add: Typed_WrapFn_def)

theorem typed_wrapfn_success_witness:
  "BeginTxx sqlDriver background db0 = (Inr 0, db1)
   \<and> fnFive 0 db1 = ((5, None), [EvUse 0], db1)
   \<and> Commit sqlDriver 0 db1 = (None, dbDone)
   \<and> fst (Typed_WrapFn sqlDriver 0 background fnFive db0) = (5, None)"
proof -
  have b: "BeginTxx sqlDriver background db0 = (Inr 0, db1)"
    by (simp add: sqlDriver_def sqlBegin_def db0_def db1_def)
  have f: "fnFive 0 db1 = ((5, None), [EvUse 0], db1)"
    by (simp add: fnFive_def)
  have c: "Commit sqlDriver 0 db1 = (None, dbDone)"
    by (simp add: sqlDriver_def sqlCommit_def db0_def db1_def dbDone_def)
  from typed_wrapfn_success [of sqlDriver background db0 0 _ fnFive 5 _ _ _ 0] b f c
  show ?thesis by simp
qed

text \<open>
  C2, as the code has it. When the unit of work given to \<open>Typed.WrapFn\<close> returns
  a non-nil error, \<open>WrapFn\<close> returns the outcome of the rollback protocol as the
  error, and as the result the value that the unit of work returned beside its
  error: \<open>r\<close> is assigned from \<open>fn\<close> before the error is tested. The result is
  the zero value only when begin fails or when the unit of work returned it.
\<close>

theorem typed_wrapfn_failure_result:
  assumes "BeginTxx d c s = (Inr tx, s1)"
    and "fn tx s1 = ((r, Some e), t, s2)"
  shows "fst (Typed_WrapFn d zero c fn s) = (r, Some (fst (rollback d tx e s2)))"
  using assms by (simp add: Typed_WrapFn_def split: prod.splits)

theorem typed_wrapfn_failure_result_witness:
  "BeginTxx sqlDriver background db0 = (Inr 0, db1)
   \<and> fnFail 0 db1 = ((5, Some (New ''boom'')), [EvUse 0], db1)
   \<and> fst (Typed_WrapFn sqlDriver 0 background fnFail db0)
       = (5, Some (fst (rollback sqlDriver 0 (New ''boom'') db1)))"
proof -
  have f: "fnFail 0 db1 = ((5, Some (New ''boom'')), [EvUse 0], db1)"
    by (simp add: fnFail_def)
  from typed_wrapfn_failure_result [of sqlDriver background db0 0 db1 fnFail 5 "New ''boom''" "[EvUse 0]" db1 0]
    sql_begin0 f
  show ?thesis by simp
qed

text \<open>
  The unit of work \<open>fnFail\<close> returns 5 beside its error; the zero value is 0, and
  \<open>WrapFn\<close> returns 5.
\<close>

theorem typed_wrapfn_failure_zero_counterexample:
  "fst (fst (Typed_WrapFn sqlDriver (0::nat) background fnFail db0)) \<noteq> 0"
  by (simp add: Typed_WrapFn_def sql_begin0 fnFail_def rollback_def sql_rollback0)

text \<open>
  C7. When the unit of work returns a nil error and the commit that follows fails
  with an error that is \<open>sql.ErrTxDone\<close>, \<open>Typed.WrapFn\<close> returns the result of
  the unit of work and a nil error, and \<open>Transactional.WrapFn\<close> returns nil.
\<close>

theorem commit_txdone_is_success:
  assumes b: "BeginTxx d c s = (Inr tx, s1)"
    and fT: "fnT tx s1 = ((r, None), t, s2)"
    and cT: "Commit d tx s2 = (Some ce, s3)"
    and dT: "errors_Is ce ErrTxDone"
    and f: "fn tx s1 = (None, t', s2')"
    and c': "Commit d tx s2' = (Some ce', s3')"
    and d': "errors_Is ce' ErrTxDone"
  shows "fst (Typed_WrapFn d zero c fnT s) = (r, None)
       \<and> fst (Transactional_WrapFn d c fn s) = None"
  using assms by (simp add: Typed_WrapFn_def Transactional_WrapFn_def)

theorem commit_txdone_is_success_witness:
  "BeginTxx sqlDriver background db0 = (Inr 0, db1)
   \<and> fnCommitsT 0 db1 = ((5, None), [EvUse 0, EvCommit 0], dbDone)
   \<and> fnCommits 0 db1 = (None, [EvUse 0, EvCommit 0], dbDone)
   \<and> Commit sqlDriver 0 dbDone = (Some ErrTxDone, dbDone)
   \<and> errors_Is ErrTxDone ErrTxDone
   \<and> fst (Typed_WrapFn sqlDriver 0 background fnCommitsT db0) = (5, None)
   \<and> fst (Transactional_WrapFn sqlDriver background fnCommits db0) = None"
proof -
  have c0: "sqlCommit 0 db1 = (None, dbDone)"
    using sql_commit0 by (simp add: sqlDriver_def)
  have fT: "fnCommitsT 0 db1 = ((5, None), [EvUse 0, EvCommit 0], dbDone)"
    by (simp add: fnCommitsT_def c0)
  have f: "fnCommits 0 db1 = (None, [EvUse 0, EvCommit 0], dbDone)"
    by (simp add: fnCommits_def c0)
  have n: "errors_Is ErrTxDone ErrTxDone" by simp
  from commit_txdone_is_success [of sqlDriver background db0 0 db1 fnCommitsT 5 _ dbDone
      ErrTxDone dbDone fnCommits _ dbDone ErrTxDone dbDone 0,
      OF sql_begin0 fT sql_commit_done n f sql_commit_done n]
    sql_begin0 fT f sql_commit_done n
  show ?thesis by simp
qed

text \<open>
  C10. \<open>Transactional.WrapFn\<close> and \<open>Typed.WrapFn\<close> never read a handle from the
  context: for every context, also one that carries a handle, the first thing
  they do is \<open>BeginTxx\<close>, and the unit of work runs on the handle that
  \<open>BeginTxx\<close> returned. The function behind \<open>Wrap\<close> is the one that reuses: with
  a handle in the context of the request it adds no begin to what its handler does.
\<close>

theorem wrapfn_always_begins:
  "(\<exists>t. fst (snd (Transactional_WrapFn d c fn s)) = EvBegin # t)
   \<and> (\<exists>t. fst (snd (Typed_WrapFn d zero c fnT s)) = EvBegin # t)
   \<and> (BeginTxx d c s = (Inr tx, s1) \<longrightarrow>
        (\<exists>t. fst (snd (Transactional_WrapFn d c fn s)) = EvBegin # fst (snd (fn tx s1)) @ t)
        \<and> (\<exists>t. fst (snd (Typed_WrapFn d zero c fnT s)) = EvBegin # fst (snd (fnT tx s1)) @ t))
   \<and> (txval (req_ctx r) = Some tx0 \<longrightarrow>
        begins (fst (snd (Wrap_func d h r s))) = begins (fst (snd (h tx0 r s))))"
proof -
  have 1: "\<exists>t. fst (snd (Transactional_WrapFn d c fn s)) = EvBegin # t"
    by (simp add: wrapfn_trace split: prod.splits sum.splits)
  have 2: "\<exists>t. fst (snd (Typed_WrapFn d zero c fnT s)) = EvBegin # t"
    by (simp add: typed_wrapfn_trace split: prod.splits sum.splits)
  have 3: "BeginTxx d c s = (Inr tx, s1) \<longrightarrow>
        (\<exists>t. fst (snd (Transactional_WrapFn d c fn s)) = EvBegin # fst (snd (fn tx s1)) @ t)
        \<and> (\<exists>t. fst (snd (Typed_WrapFn d zero c fnT s)) = EvBegin # fst (snd (fnT tx s1)) @ t)"
    by (simp add: wrapfn_trace typed_wrapfn_trace)
  have 4: "txval (req_ctx r) = Some tx0 \<longrightarrow>
        begins (fst (snd (Wrap_func d h r s))) = begins (fst (snd (h tx0 r s)))"
    by (simp add: wrap_func_reuse begins_append)
  from 1 2 3 4 show ?thesis by blast
qed

theorem wrapfn_always_begins_witness:
  "txval carrying7 = Some 7
   \<and> BeginTxx sqlDriver carrying7 db0 = (Inr 0, db1)
   \<and> fst (snd (Transactional_WrapFn sqlDriver carrying7 fnCommits db0))
       = [EvBegin, EvUse 0, EvCommit 0, EvCommit 0]
   \<and> fst (snd (Typed_WrapFn sqlDriver 0 carrying7 fnFive db0)) = [EvBegin, EvUse 0, EvCommit 0]
   \<and> txval (req_ctx reqTx0) = Some 0
   \<and> begins (fst (snd (Wrap_func sqlDriver hNoRows reqTx0 db0))) = 0"
proof -
  have c: "txval carrying7 = Some 7" by (simp add: carrying7_def)
  have i: "txval (req_ctx reqTx0) = Some 0" by (simp add: reqTx0_def)
  have c0: "sqlCommit 0 db1 = (None, dbDone)"
    using sql_commit0 by (simp add: sqlDriver_def)
  have f: "fnCommits 0 db1 = (None, [EvUse 0, EvCommit 0], dbDone)"
    by (simp add: fnCommits_def c0)
  have a: "fst (snd (Transactional_WrapFn sqlDriver carrying7 fnCommits db0))
       = [EvBegin, EvUse 0, EvCommit 0, EvCommit 0]"
    by (simp add: Transactional_WrapFn_def sql_begin0_carrying f sql_commit_done)
  have t: "fst (snd (Typed_WrapFn sqlDriver 0 carrying7 fnFive db0)) = [EvBegin, EvUse 0, EvCommit 0]"
    by (simp add: Typed_WrapFn_def sql_begin0_carrying fnFive_def sql_commit0)
  from wrapfn_always_begins [of sqlDriver carrying7 fnCommits db0 0 fnFive 0 db1 reqTx0 0 hNoRows]
    c i sql_begin0_carrying a t
  show ?thesis by (simp add: hNoRows_def)
qed

section \<open>The rollback protocol and its errors\<close>







text \<open>
  C5, as the code has it. When the rollback call fails with an error that is not
  \<open>sql.ErrTxDone\<close>, the protocol returns a new error whose message is ``failed to
  rollback: '', the message of the triggering error, ``: '' and the message of the
  rollback failure, in that order, and which unwraps to the rollback failure
  alone. Testing the returned error with \<open>errors.Is\<close> finds the rollback
  failure and its conditions; the triggering error is kept as text only, so the
  returned error is \<open>sql.ErrNoRows\<close> exactly when the rollback failure is, and is
  never \<open>sql.ErrTxDone\<close>.
\<close>

theorem rollback_fault_result:
  assumes "Rollback d tx s = (Some rerr, s1)"
    and "\<not> errors_Is rerr ErrTxDone"
  shows "fst (rollback d tx e s)
           = WrapError (''failed to rollback: '' @ Error e @ '': '' @ Error rerr) rerr
       \<and> Error (fst (rollback d tx e s))
           = ''failed to rollback: '' @ Error e @ '': '' @ Error rerr
       \<and> Unwrap (fst (rollback d tx e s)) = Some rerr
       \<and> errors_Is (fst (rollback d tx e s)) rerr
       \<and> errors_Is (fst (rollback d tx e s)) ErrNoRows = errors_Is rerr ErrNoRows
       \<and> \<not> errors_Is (fst (rollback d tx e s)) ErrTxDone"
proof -
  have r: "fst (rollback d tx e s)
           = WrapError (''failed to rollback: '' @ Error e @ '': '' @ Error rerr) rerr"
    using assms by (simp add: rollback_def)
  have self: "errors_Is rerr rerr" by (cases rerr) simp_all
  show ?thesis unfolding r using assms(2) self by simp
qed

theorem rollback_fault_result_witness:
  "Rollback sqlDriver 0 dbFault = (Some (New ''connection lost''), dbFault\<lparr>finished := [0]\<rparr>)
   \<and> \<not> errors_Is (New ''connection lost'') ErrTxDone
   \<and> fst (rollback sqlDriver 0 ErrNoRows dbFault)
       = WrapError ''failed to rollback: sql: no rows in result set: connection lost''
           (New ''connection lost'')"
proof -
  have n: "\<not> errors_Is (New ''connection lost'') ErrTxDone" by simp
  from rollback_fault_result [OF sql_rollback_fault n, of ErrNoRows] sql_rollback_fault n
  show ?thesis by simp
qed

text \<open>
  The driver fails the rollback with ``connection lost'', the triggering error is
  \<open>sql.ErrNoRows\<close>, and the returned error is not \<open>sql.ErrNoRows\<close> by
  \<open>errors.Is\<close>.
\<close>

theorem rollback_fault_loses_cause_counterexample:
  "Rollback sqlDriver 0 dbFault = (Some (New ''connection lost''), dbFault\<lparr>finished := [0]\<rparr>)
   \<and> \<not> errors_Is (New ''connection lost'') ErrTxDone
   \<and> errors_Is ErrNoRows ErrNoRows
   \<and> \<not> errors_Is (fst (rollback sqlDriver 0 ErrNoRows dbFault)) ErrNoRows"
  by (simp add: rollback_def sql_rollback_fault)

text \<open>
  C6. When the rollback call fails with an error that is \<open>sql.ErrTxDone\<close>, the
  protocol returns the triggering error unchanged.
\<close>

theorem rollback_txdone_unchanged:
  assumes "Rollback d tx s = (Some rerr, s1)"
    and "errors_Is rerr ErrTxDone"
  shows "fst (rollback d tx e s) = e"
  using assms by (simp add: rollback_def)

theorem rollback_txdone_unchanged_witness:
  "Rollback sqlDriver 0 dbDone = (Some ErrTxDone, dbDone)
   \<and> errors_Is ErrTxDone ErrTxDone
   \<and> fst (rollback sqlDriver 0 ErrNoRows dbDone) = ErrNoRows"
proof -
  have n: "errors_Is ErrTxDone ErrTxDone" by simp
  from rollback_txdone_unchanged [OF sql_rollback_done n, of ErrNoRows] sql_rollback_done n
  show ?thesis by simp
qed

section \<open>Reuse of the handle\<close>

text \<open>
  C8. Serving a request through \<open>Wrap\<close> of a chain of nested handlers, of any
  depth, calls \<open>BeginTxx\<close> once when the context of the request carries no handle
  and never when it carries one; and every handler of the chain is given the
  same handle, the one the context carried or the one that was begun.
\<close>

theorem wrap_chain_single_begin:
  "begins (fst (snd (Transactional_Wrap d (chain_handler d eh c) eh r s)))
     = (case txval (req_ctx r) of None \<Rightarrow> 1 | Some tx \<Rightarrow> 0)
   \<and> uses (fst (snd (Transactional_Wrap d (chain_handler d eh c) eh r s)))
     = (case active_handle d r s of None \<Rightarrow> [] | Some tx \<Rightarrow> replicate (depth c) tx)"
proof (cases "txval (req_ctx r)")
  case (Some tx)
  then show ?thesis
    using chain_reuse [OF Some, of d eh c s]
    by (simp add: wrap_reuse_counts [OF Some] active_handle_def)
next
  case None
  obtain res s1 where b: "BeginTxx d (req_ctx r) s = (res, s1)"
    by (cases "BeginTxx d (req_ctx r) s") auto
  show ?thesis
  proof (cases res)
    case (Inl e)
    with None b show ?thesis
      by (simp add: wrap_fresh_counts [OF None] active_handle_def)
  next
    case (Inr tx)
    let ?r = "r\<lparr>req_ctx := (req_ctx r)\<lparr>txval := Some tx\<rparr>\<rparr>"
    have "txval (req_ctx ?r) = Some tx" by simp
    from chain_reuse [OF this, of d eh c s1] None b Inr show ?thesis
      by (simp add: wrap_fresh_counts [OF None] active_handle_def)
  qed
qed




end
